theory Spec2Isabelle
  imports Main
begin

section \<open>Python values, errors and containers\<close>

text \<open>
  The module \<open>quart/wrappers/base.py\<close> defines \<open>BaseRequestWebsocket\<close>, the common base of
  Quart's request and websocket wrappers. Strings are modelled as \<open>string\<close>; the only
  character the code inspects is the ASCII dot, which never occurs inside a multi-byte
  UTF-8 sequence, so splitting on bytes and on code points agree.
\<close>

datatype py_error = KeyError | IndexError

text \<open>Dynamically typed values held by the ASGI scope, the view arguments and the
  application configuration. \<open>PNone\<close> is Python's \<open>None\<close>.\<close>

datatype py_value =
    PNone
  | PStr string
  | PInt int
  | PTuple "py_value list"
  | PList "py_value list"

datatype py_exception = PyException string

type_synonym py_dict = "string \<rightharpoonup> py_value"

text \<open>\<open>d.get(k)\<close>: the stored value, or \<open>None\<close> when the key is missing.\<close>

definition dict_get :: "py_dict \<Rightarrow> string \<Rightarrow> py_value" where
  "dict_get d k = (case d k of None \<Rightarrow> PNone | Some v \<Rightarrow> v)"

text \<open>\<open>d[k]\<close>: the stored value, or \<open>KeyError\<close> when the key is missing.\<close>

definition dict_getitem :: "py_dict \<Rightarrow> string \<Rightarrow> py_error + py_value" where
  "dict_getitem d k = (case d k of None \<Rightarrow> Inl KeyError | Some v \<Rightarrow> Inr v)"

text \<open>\<open>xs[0]\<close>: the first element, or \<open>IndexError\<close> on the empty list.\<close>

definition list_getitem0 :: "'a list \<Rightarrow> py_error + 'a" where
  "list_getitem0 xs = (case xs of [] \<Rightarrow> Inl IndexError | x # _ \<Rightarrow> Inr x)"

text \<open>\<open>s.rsplit(sep, 1)\<close> for a one-character separator: the string is cut at the last
  occurrence of \<open>sep\<close>; without an occurrence the result is the one-element list \<open>[s]\<close>.\<close>

definition rsplit1 :: "char \<Rightarrow> string \<Rightarrow> string list" where
  "rsplit1 sep s =
     (case dropWhile (\<lambda>c. c \<noteq> sep) (rev s) of
        [] \<Rightarrow> [s]
      | _ # pre \<Rightarrow> [rev pre, rev (takeWhile (\<lambda>c. c \<noteq> sep) (rev s))])"

subsection \<open>Header collection\<close>

text \<open>The header collection is an ordered multimap of name and value pairs. Its \<open>get\<close>
  compares names without regard to (ASCII) letter case and returns the value of the first
  match, or \<open>None\<close>.\<close>

type_synonym headers = "(string \<times> string) list"

definition ascii_lower :: "char \<Rightarrow> char" where
  "ascii_lower c =
     (let n = (of_char c :: nat) in if 65 \<le> n \<and> n \<le> 90 then char_of (n + 32) else c)"

definition ascii_upper :: "char \<Rightarrow> char" where
  "ascii_upper c =
     (let n = (of_char c :: nat) in if 97 \<le> n \<and> n \<le> 122 then char_of (n - 32) else c)"

fun headers_get :: "headers \<Rightarrow> string \<Rightarrow> string option" where
  "headers_get [] key = None"
| "headers_get ((k, v) # hs) key =
     (if map ascii_lower k = map ascii_lower key then Some v else headers_get hs key)"

section \<open>The request object\<close>

text \<open>The attributes assigned by the initializer of the base class
  (\<open>werkzeug.sansio.request.Request\<close>). The attribute holding the HTTP verb is named
  \<open>http_method\<close> here.\<close>

record sansio_request =
  http_method :: string
  scheme :: string
  server :: py_value
  root_path :: string
  path :: string
  query_string :: string
  headers :: headers
  remote_addr :: "string option"

text \<open>The matched rule. The only attribute this module reads is \<open>endpoint\<close>; everything
  else a rule carries is kept in \<open>rule_other\<close>.\<close>

record 'a quart_rule =
  rule_endpoint :: string
  rule_other :: 'a

text \<open>\<open>BaseRequestWebsocket\<close>: the base attributes, the two attributes its own initializer
  assigns, and the three class-level attributes \<open>routing_exception\<close>, \<open>url_rule\<close> and
  \<open>view_args\<close> with their default \<open>None\<close>.\<close>

record 'a request = sansio_request +
  http_version :: string
  scope :: py_dict
  routing_exception :: "py_exception option"
  url_rule :: "'a quart_rule option"
  view_args :: "py_dict option"

text \<open>The initializer of the base class lives outside this repository, so
  \<open>super().__init__\<close> is a parameter of the model: a function from the eight positional
  arguments to the base attributes.\<close>

type_synonym super_init =
  "string \<Rightarrow> string \<Rightarrow> py_value \<Rightarrow> string \<Rightarrow> string \<Rightarrow> string \<Rightarrow> headers \<Rightarrow> string option
     \<Rightarrow> sansio_request"

text \<open>\<open>BaseRequestWebsocket.__init__\<close> (lines 34 to 73).\<close>

definition BaseRequestWebsocket_init ::
  "super_init \<Rightarrow> string \<Rightarrow> string \<Rightarrow> string \<Rightarrow> string \<Rightarrow> headers \<Rightarrow> string \<Rightarrow> string
     \<Rightarrow> py_dict \<Rightarrow> 'a request" where
  "BaseRequestWebsocket_init super_init meth schm pth qs hdrs rootp httpv scp =
     (let base = super_init meth schm (dict_get scp ''server'') rootp pth qs hdrs
                   (headers_get hdrs ''Remote-Addr'')
      in \<lparr> http_method = http_method base, scheme = scheme base, server = server base,
           root_path = root_path base, path = path base,
           query_string = query_string base, headers = headers base,
           remote_addr = remote_addr base,
           http_version = httpv, scope = scp,
           routing_exception = None, url_rule = None, view_args = None \<rparr>)"

text \<open>The base class \<open>werkzeug.sansio.request.Request\<close> belongs to the werkzeug library, on
  which the package depends. Its initializer assigns the upper-cased verb, \<open>scheme\<close>,
  \<open>server\<close>, \<open>root_path.rstrip("/")\<close>, \<open>"/" + path.lstrip("/")\<close>, \<open>query_string\<close>,
  \<open>headers\<close> and \<open>remote_addr\<close>: the HTTP verb is upper-cased, the root path loses its
  trailing slashes, the path starts with exactly one slash, and the other arguments are
  stored as given. Letter case is converted for ASCII letters only.\<close>

definition rstrip_char :: "char \<Rightarrow> string \<Rightarrow> string" where
  "rstrip_char c s = rev (dropWhile (\<lambda>x. x = c) (rev s))"

definition lstrip_char :: "char \<Rightarrow> string \<Rightarrow> string" where
  "lstrip_char c s = dropWhile (\<lambda>x. x = c) s"

definition SansIORequest_init :: super_init where
  "SansIORequest_init meth schm srv rootp pth qs hdrs raddr =
     \<lparr> http_method = map ascii_upper meth, scheme = schm, server = srv,
       root_path = rstrip_char CHR ''/'' rootp,
       path = CHR ''/'' # lstrip_char CHR ''/'' pth,
       query_string = qs, headers = hdrs, remote_addr = raddr \<rparr>"

section \<open>Derived properties\<close>

text \<open>The application context: \<open>current_app\<close> is a proxy that is false when no application
  context is active and otherwise stands for the application, whose \<open>config\<close> is a
  dictionary.\<close>

record quart_app =
  config :: py_dict

text \<open>\<open>max_content_length\<close> (lines 75 to 78).\<close>

definition max_content_length :: "quart_app option \<Rightarrow> 'a request \<Rightarrow> py_error + py_value" where
  "max_content_length current_app self =
     (case current_app of
        Some app \<Rightarrow> dict_getitem (config app) ''MAX_CONTENT_LENGTH''
      | None \<Rightarrow> Inr PNone)"

text \<open>\<open>endpoint\<close> (lines 80 to 87).\<close>

definition endpoint :: "'a request \<Rightarrow> string option" where
  "endpoint self =
     (case url_rule self of Some r \<Rightarrow> Some (rule_endpoint r) | None \<Rightarrow> None)"

text \<open>\<open>blueprint\<close> (lines 89 to 99).\<close>

definition blueprint :: "'a request \<Rightarrow> py_error + string option" where
  "blueprint self =
     (case endpoint self of
        None \<Rightarrow> Inr None
      | Some e \<Rightarrow>
          if CHR ''.'' \<in> set e
          then (case list_getitem0 (rsplit1 CHR ''.'' e) of
                  Inl err \<Rightarrow> Inl err
                | Inr b \<Rightarrow> Inr (Some b))
          else Inr None)"

text \<open>\<open>blueprints\<close> (lines 101 to 110). The helper \<open>_split_blueprint_path\<close> is imported from
  \<open>quart/helpers.py\<close>; the property only passes the blueprint name to it, so the helper is
  a parameter of the model.\<close>

definition blueprints :: "(string \<Rightarrow> string list) \<Rightarrow> 'a request \<Rightarrow> py_error + string list" where
  "blueprints split_blueprint_path self =
     (case blueprint self of
        Inl err \<Rightarrow> Inl err
      | Inr None \<Rightarrow> Inr []
      | Inr (Some b) \<Rightarrow> Inr (split_blueprint_path b))"

text \<open>\<open>script_root\<close> (lines 112 to 114).\<close>

definition script_root :: "'a request \<Rightarrow> string" where
  "script_root self = root_path self"

text \<open>\<open>url_root\<close> (lines 116 to 118) forwards to a property of the base class and
  \<open>json_module\<close> is a class-level constant; neither is modelled.\<close>

section \<open>Collaborators outside this module\<close>

text \<open>Modelled from the spec: the helper \<open>_split_blueprint_path\<close> of \<open>quart/helpers.py\<close>.
  The specification describes it as a pure function from a dotted blueprint name to the
  chain of blueprint names, ordered from the current blueprint upwards through each
  ancestor, the ancestors being the dot-separated prefixes of the name.
  \<open>blueprint_parents\<close> walks the reversed name, so the longest prefix comes first.\<close>

fun blueprint_parents :: "string \<Rightarrow> string list" where
  "blueprint_parents [] = []"
| "blueprint_parents (c # cs) =
     (if c = CHR ''.'' then rev cs # blueprint_parents cs else blueprint_parents cs)"

definition split_blueprint_path :: "string \<Rightarrow> string list" where
  "split_blueprint_path name = name # blueprint_parents (rev name)"

text \<open>Modelled from the spec: the resolver of the routing layer, which on a successful
  match assigns the matched rule and the view arguments together
  (\<open>request.url_rule = rule; request.view_args = args\<close>).\<close>

definition set_matched_rule :: "'a request \<Rightarrow> 'a quart_rule \<Rightarrow> py_dict \<Rightarrow> 'a request" where
  "set_matched_rule self rule args = self\<lparr> url_rule := Some rule, view_args := Some args \<rparr>"

subsection \<open>Class attributes, instance attributes and references\<close>

text \<open>Lines 30 to 32 bind \<open>routing_exception\<close>, \<open>url_rule\<close> and \<open>view_args\<close> in the class body:
  they are attributes of the class object, one binding shared by every instance.\<close>

record 'a class_attrs =
  cls_routing_exception :: "py_exception option"
  cls_url_rule :: "'a quart_rule option"
  cls_view_args :: "py_dict option"


text \<open>The attribute dictionary of one instance. The initializer (lines 62 to 73) binds the
  base attributes, \<open>http_version\<close> and \<open>scope\<close>; it binds none of the three routing attributes,
  which is the inner \<open>None\<close> of the last three fields.\<close>

record 'a instance_dict =
  own_base :: sansio_request
  own_http_version :: string
  own_scope :: py_dict
  own_routing_exception :: "py_exception option option"
  own_url_rule :: "'a quart_rule option option"
  own_view_args :: "py_dict option option"

definition instance_init ::
  "super_init \<Rightarrow> string \<Rightarrow> string \<Rightarrow> string \<Rightarrow> string \<Rightarrow> headers \<Rightarrow> string \<Rightarrow> string
     \<Rightarrow> py_dict \<Rightarrow> 'a instance_dict" where
  "instance_init super_init meth schm pth qs hdrs rootp httpv scp =
     \<lparr> own_base = super_init meth schm (dict_get scp ''server'') rootp pth qs hdrs
                    (headers_get hdrs ''Remote-Addr''),
       own_http_version = httpv, own_scope = scp,
       own_routing_exception = None, own_url_rule = None, own_view_args = None \<rparr>"

text \<open>Reading \<open>self.name\<close>: the binding of the instance if there is one, the binding of the
  class otherwise.\<close>

definition attr_lookup :: "'v option \<Rightarrow> 'v \<Rightarrow> 'v" where
  "attr_lookup own cls = (case own of Some x \<Rightarrow> x | None \<Rightarrow> cls)"

text \<open>The attributes of an instance as \<open>self.name\<close> reads them.\<close>

definition getattrs :: "'a class_attrs \<Rightarrow> 'a instance_dict \<Rightarrow> 'a request" where
  "getattrs cls d =
     \<lparr> http_method = http_method (own_base d), scheme = scheme (own_base d),
       server = server (own_base d), root_path = root_path (own_base d),
       path = path (own_base d), query_string = query_string (own_base d),
       headers = headers (own_base d), remote_addr = remote_addr (own_base d),
       http_version = own_http_version d, scope = own_scope d,
       routing_exception = attr_lookup (own_routing_exception d) (cls_routing_exception cls),
       url_rule = attr_lookup (own_url_rule d) (cls_url_rule cls),
       view_args = attr_lookup (own_view_args d) (cls_view_args cls) \<rparr>"





section \<open>Auxiliary facts\<close>

subsection \<open>String operations\<close>

lemma rsplit1_last:
  assumes "sep \<notin> set suf"
  shows "rsplit1 sep (pre @ sep # suf) = [pre, suf]"
proof -
  have all: "\<forall>c\<in>set (rev suf). c \<noteq> sep" using assms by auto
  have d: "dropWhile (\<lambda>c. c \<noteq> sep) (rev suf @ sep # rev pre) = sep # rev pre"
    using all by (simp add: dropWhile_append)
  have t: "takeWhile (\<lambda>c. c \<noteq> sep) (rev suf @ sep # rev pre) = rev suf"
    using all by (simp add: takeWhile_append)
  show ?thesis by (simp add: rsplit1_def d t)
qed

lemma rsplit1_none:
  assumes "sep \<notin> set s"
  shows "rsplit1 sep s = [s]"
proof -
  have d: "dropWhile (\<lambda>c. c \<noteq> sep) (rev s) = []" using assms by auto
  show ?thesis unfolding rsplit1_def d by simp
qed

lemma rsplit1_nonempty: "rsplit1 sep s \<noteq> []"
  by (simp add: rsplit1_def split: list.splits)

lemma rstrip_char_fixed: "(rstrip_char c s = s) = (s = [] \<or> last s \<noteq> c)"
proof (cases s rule: rev_cases)
  case Nil
  then show ?thesis by (simp add: rstrip_char_def)
next
  case (snoc ys y)
  show ?thesis
  proof (cases "y = c")
    case False
    with snoc show ?thesis by (simp add: rstrip_char_def)
  next
    case True
    have le: "length (rev (dropWhile (\<lambda>x. x = c) (rev ys))) \<le> length ys"
      using length_dropWhile_le [of "\<lambda>x. x = c" "rev ys"] by simp
    have "length (ys @ [y]) = Suc (length ys)" by simp
    with le have "rev (dropWhile (\<lambda>x. x = c) (rev ys)) \<noteq> ys @ [y]"
      by (metis Suc_n_not_le_n)
    with snoc True show ?thesis by (simp add: rstrip_char_def)
  qed
qed

lemma headers_get_missing:
  "\<forall>kv\<in>set h. map ascii_lower (fst kv) \<noteq> map ascii_lower key \<Longrightarrow> headers_get h key = None"
  by (induction h) auto

subsection \<open>The properties, case by case\<close>

lemma blueprint_cut:
  assumes "endpoint self = Some (b @ CHR ''.'' # rest)" and "CHR ''.'' \<notin> set rest"
  shows "blueprint self = Inr (Some b)"
  using assms by (simp add: blueprint_def rsplit1_last list_getitem0_def)

lemma blueprint_no_dot:
  assumes "endpoint self = Some e" and "CHR ''.'' \<notin> set e"
  shows "blueprint self = Inr None"
  using assms by (simp add: blueprint_def)

lemma blueprint_total: "\<exists>b. blueprint self = Inr b"
proof (cases "endpoint self")
  case None
  then show ?thesis by (simp add: blueprint_def)
next
  case (Some e)
  obtain x xs where "rsplit1 CHR ''.'' e = x # xs"
    using rsplit1_nonempty [of "CHR ''.''" e] by (cases "rsplit1 CHR ''.'' e") auto
  with Some show ?thesis by (simp add: blueprint_def list_getitem0_def)
qed

lemma blueprints_total: "\<exists>bs. blueprints sp self = Inr bs"
proof -
  obtain b where "blueprint self = Inr b" using blueprint_total by blast
  then show ?thesis by (cases b) (simp_all add: blueprints_def)
qed

subsection \<open>Instances and their class\<close>


text \<open>A fresh instance has no binding of its own for the routing attributes: it reads the
  shared binding of the class, whatever that is.\<close>

lemma fresh_instance_reads_class:
  "url_rule (getattrs cls (instance_init si m s p q h rp v sc)) = cls_url_rule cls \<and>
   view_args (getattrs cls (instance_init si m s p q h rp v sc)) = cls_view_args cls \<and>
   routing_exception (getattrs cls (instance_init si m s p q h rp v sc))
     = cls_routing_exception cls"
  by (simp add: getattrs_def instance_init_def attr_lookup_def)


section \<open>The claims\<close>

subsection \<open>Unmatched requests\<close>

text \<open>Claim C1. On a freshly constructed request, before the resolver has run,
  \<open>endpoint\<close> and \<open>blueprint\<close> are absent, \<open>blueprints\<close> is the empty list and \<open>view_args\<close> is
  absent; \<open>url_rule\<close> and \<open>routing_exception\<close> are at their default \<open>None\<close>. This holds for
  every base initializer and every splitter, since neither is consulted.\<close>

theorem fresh_request_unmatched:
  "endpoint (BaseRequestWebsocket_init si m s p q h rp v sc :: 'a request) = None \<and>
   blueprint (BaseRequestWebsocket_init si m s p q h rp v sc :: 'a request) = Inr None \<and>
   blueprints sp (BaseRequestWebsocket_init si m s p q h rp v sc :: 'a request) = Inr [] \<and>
   view_args (BaseRequestWebsocket_init si m s p q h rp v sc :: 'a request) = None \<and>
   url_rule (BaseRequestWebsocket_init si m s p q h rp v sc :: 'a request) = None \<and>
   routing_exception (BaseRequestWebsocket_init si m s p q h rp v sc :: 'a request) = None"
proof -
  let ?r = "BaseRequestWebsocket_init si m s p q h rp v sc :: 'a request"
  have u: "url_rule ?r = None" and a: "view_args ?r = None"
    and x: "routing_exception ?r = None"
    by (simp_all add: BaseRequestWebsocket_init_def Let_def)
  have e: "endpoint ?r = None" using u by (simp add: endpoint_def)
  have b: "blueprint ?r = Inr None" using e by (simp add: blueprint_def)
  have bs: "blueprints sp ?r = Inr []" using b by (simp add: blueprints_def)
  show ?thesis using u a x e b bs by simp
qed

subsection \<open>The blueprint of a matched request\<close>

text \<open>Claim C2. Let the matched rule have endpoint \<open>e\<close>. If \<open>e\<close> contains a dot, then \<open>e\<close>
  is \<open>b\<close>, a dot and a dot-free rest, and \<open>blueprint\<close> is \<open>b\<close>: the part before the last
  dot. Whenever \<open>e\<close> is cut in this way the blueprint is the part before the cut. If \<open>e\<close>
  has no dot, \<open>blueprint\<close> is absent.\<close>

theorem blueprint_splits_on_last_dot:
  assumes "url_rule self = Some r" and "rule_endpoint r = e"
  shows "(CHR ''.'' \<in> set e \<longrightarrow>
            (\<exists>b rest. e = b @ CHR ''.'' # rest \<and> CHR ''.'' \<notin> set rest \<and>
                       blueprint self = Inr (Some b))) \<and>
         (\<forall>b rest. e = b @ CHR ''.'' # rest \<and> CHR ''.'' \<notin> set rest \<longrightarrow>
                       blueprint self = Inr (Some b)) \<and>
         (CHR ''.'' \<notin> set e \<longrightarrow> blueprint self = Inr None)"
proof -
  have ep: "endpoint self = Some e" using assms by (simp add: endpoint_def)
  have cut: "blueprint self = Inr (Some b)"
    if "e = b @ CHR ''.'' # rest" and "CHR ''.'' \<notin> set rest" for b rest
    using that ep by (simp add: blueprint_cut)
  have ex: "\<exists>b rest. e = b @ CHR ''.'' # rest \<and> CHR ''.'' \<notin> set rest \<and>
                     blueprint self = Inr (Some b)" if dot: "CHR ''.'' \<in> set e"
  proof -
    obtain b rest where "e = b @ CHR ''.'' # rest" and "CHR ''.'' \<notin> set rest"
      using split_list_last [OF dot] by blast
    then show ?thesis using cut by blast
  qed
  have no: "blueprint self = Inr None" if "CHR ''.'' \<notin> set e"
    by (rule blueprint_no_dot [OF ep that])
  show ?thesis using cut ex no by blast
qed

theorem blueprint_splits_on_last_dot_witness:
  "blueprint (set_matched_rule
       (BaseRequestWebsocket_init SansIORequest_init ''GET'' ''http'' ''/'' [] [] [] ''1.1''
          Map.empty)
       \<lparr> rule_endpoint = ''a.b.c'', rule_other = () \<rparr> Map.empty) = Inr (Some ''a.b'') \<and>
   blueprint (set_matched_rule
       (BaseRequestWebsocket_init SansIORequest_init ''GET'' ''http'' ''/'' [] [] [] ''1.1''
          Map.empty)
       \<lparr> rule_endpoint = ''abc'', rule_other = () \<rparr> Map.empty) = Inr None"
proof -
  let ?r0 = "BaseRequestWebsocket_init SansIORequest_init ''GET'' ''http'' ''/'' [] [] []
               ''1.1'' Map.empty :: unit request"
  let ?q1 = "\<lparr> rule_endpoint = ''a.b.c'', rule_other = () \<rparr>"
  let ?q2 = "\<lparr> rule_endpoint = ''abc'', rule_other = () \<rparr>"
  have u1: "url_rule (set_matched_rule ?r0 ?q1 Map.empty) = Some ?q1"
    by (simp add: set_matched_rule_def)
  have u2: "url_rule (set_matched_rule ?r0 ?q2 Map.empty) = Some ?q2"
    by (simp add: set_matched_rule_def)
  have e1: "rule_endpoint ?q1 = ''a.b.c''" by simp
  have e2: "rule_endpoint ?q2 = ''abc''" by simp
  have d: "''a.b.c'' = ''a.b'' @ CHR ''.'' # ''c'' \<and> CHR ''.'' \<notin> set ''c''" by simp
  have n: "CHR ''.'' \<notin> set ''abc''" by simp
  from blueprint_splits_on_last_dot [OF u1 e1] d
  have "blueprint (set_matched_rule ?r0 ?q1 Map.empty) = Inr (Some ''a.b'')" by blast
  moreover from blueprint_splits_on_last_dot [OF u2 e2] n
  have "blueprint (set_matched_rule ?r0 ?q2 Map.empty) = Inr None" by blast
  ultimately show ?thesis by simp
qed

text \<open>Claim C3. After the resolver has assigned a rule with endpoint
  \<open>admin.users.list\<close>, \<open>endpoint\<close> is that string, \<open>blueprint\<close> is \<open>admin.users\<close> and
  \<open>blueprints\<close> is \<open>admin.users\<close> followed by \<open>admin\<close>, from the current blueprint to the
  root. After a rule with endpoint \<open>index\<close>, \<open>blueprint\<close> is absent and \<open>blueprints\<close> is
  empty. The chain is computed by the splitter as the specification describes it.\<close>

theorem matched_rule_examples:
  "(rule_endpoint r = ''admin.users.list'' \<longrightarrow>
      endpoint (set_matched_rule self r args) = Some ''admin.users.list'' \<and>
      blueprint (set_matched_rule self r args) = Inr (Some ''admin.users'') \<and>
      blueprints split_blueprint_path (set_matched_rule self r args)
        = Inr [''admin.users'', ''admin'']) \<and>
   (rule_endpoint r = ''index'' \<longrightarrow>
      endpoint (set_matched_rule self r args) = Some ''index'' \<and>
      blueprint (set_matched_rule self r args) = Inr None \<and>
      blueprints split_blueprint_path (set_matched_rule self r args) = Inr [])"
proof -
  have u: "url_rule (set_matched_rule self r args) = Some r"
    by (simp add: set_matched_rule_def)
  have e: "endpoint (set_matched_rule self r args) = Some (rule_endpoint r)"
    using u by (simp add: endpoint_def)
  have s: "split_blueprint_path ''admin.users'' = [''admin.users'', ''admin'']"
    by (simp add: split_blueprint_path_def)
  have nested: "blueprint (set_matched_rule self r args) = Inr (Some ''admin.users'') \<and>
      blueprints split_blueprint_path (set_matched_rule self r args)
        = Inr [''admin.users'', ''admin'']"
    if "rule_endpoint r = ''admin.users.list''"
  proof -
    have "endpoint (set_matched_rule self r args)
            = Some (''admin.users'' @ CHR ''.'' # ''list'')"
      using e that by simp
    then have "blueprint (set_matched_rule self r args) = Inr (Some ''admin.users'')"
      by (rule blueprint_cut) simp
    then show ?thesis using s by (simp add: blueprints_def)
  qed
  have plain: "blueprint (set_matched_rule self r args) = Inr None \<and>
      blueprints split_blueprint_path (set_matched_rule self r args) = Inr []"
    if "rule_endpoint r = ''index''"
  proof -
    have "endpoint (set_matched_rule self r args) = Some ''index''"
      using e that by simp
    then have "blueprint (set_matched_rule self r args) = Inr None"
      by (rule blueprint_no_dot) simp
    then show ?thesis by (simp add: blueprints_def)
  qed
  show ?thesis using e nested plain by simp
qed

theorem matched_rule_examples_witness:
  "blueprints split_blueprint_path
     (set_matched_rule
        (BaseRequestWebsocket_init SansIORequest_init ''GET'' ''http'' ''/'' [] [] [] ''1.1''
           Map.empty)
        \<lparr> rule_endpoint = ''admin.users.list'', rule_other = () \<rparr> Map.empty)
     = Inr [''admin.users'', ''admin''] \<and>
   blueprints split_blueprint_path
     (set_matched_rule
        (BaseRequestWebsocket_init SansIORequest_init ''GET'' ''http'' ''/'' [] [] [] ''1.1''
           Map.empty)
        \<lparr> rule_endpoint = ''index'', rule_other = () \<rparr> Map.empty)
     = Inr []"
  using matched_rule_examples
          [of "\<lparr> rule_endpoint = ''admin.users.list'', rule_other = () \<rparr>"
              "BaseRequestWebsocket_init SansIORequest_init ''GET'' ''http'' ''/'' [] [] []
                 ''1.1'' Map.empty"
              Map.empty]
        matched_rule_examples
          [of "\<lparr> rule_endpoint = ''index'', rule_other = () \<rparr>"
              "BaseRequestWebsocket_init SansIORequest_init ''GET'' ''http'' ''/'' [] [] []
                 ''1.1'' Map.empty"
              Map.empty]
  by simp

text \<open>Claim C8. If the endpoint of the matched rule is a dot followed by a dot-free
  rest, as in \<open>.list\<close>, the part before the last dot is the empty string: \<open>blueprint\<close> is
  the empty string, a present value, and \<open>blueprints\<close> is what the splitter returns for
  the empty string rather than the empty list. The test in \<open>blueprints\<close> is for \<open>None\<close>,
  not for emptiness.\<close>

theorem blueprint_empty_prefix:
  assumes "url_rule self = Some r"
    and "rule_endpoint r = CHR ''.'' # rest"
    and "CHR ''.'' \<notin> set rest"
  shows "blueprint self = Inr (Some []) \<and> blueprints sp self = Inr (sp [])"
proof -
  have "endpoint self = Some ([] @ CHR ''.'' # rest)"
    using assms(1,2) by (simp add: endpoint_def)
  then have b: "blueprint self = Inr (Some [])"
    using assms(3) by (rule blueprint_cut)
  then show ?thesis by (simp add: blueprints_def)
qed

theorem blueprint_empty_prefix_witness:
  "blueprint (set_matched_rule
       (BaseRequestWebsocket_init SansIORequest_init ''GET'' ''http'' ''/'' [] [] [] ''1.1''
          Map.empty)
       \<lparr> rule_endpoint = ''.list'', rule_other = () \<rparr> Map.empty) = Inr (Some []) \<and>
   blueprints split_blueprint_path (set_matched_rule
       (BaseRequestWebsocket_init SansIORequest_init ''GET'' ''http'' ''/'' [] [] [] ''1.1''
          Map.empty)
       \<lparr> rule_endpoint = ''.list'', rule_other = () \<rparr> Map.empty) = Inr [[]]"
proof -
  let ?q = "\<lparr> rule_endpoint = ''.list'', rule_other = () \<rparr>"
  let ?r = "set_matched_rule
       (BaseRequestWebsocket_init SansIORequest_init ''GET'' ''http'' ''/'' [] [] [] ''1.1''
          Map.empty)
       ?q Map.empty"
  have u: "url_rule ?r = Some ?q" by (simp add: set_matched_rule_def)
  have e: "rule_endpoint ?q = CHR ''.'' # ''list''" by simp
  have n: "CHR ''.'' \<notin> set ''list''" by simp
  have s: "split_blueprint_path [] = [[]]" by (simp add: split_blueprint_path_def)
  show ?thesis
    using blueprint_empty_prefix [OF u e n, of split_blueprint_path] s by simp
qed

text \<open>Claim C10. \<open>blueprint\<close> and \<open>blueprints\<close> depend on the endpoint string of the matched
  rule only: two requests whose matched rules carry the same endpoint give the same
  results, whatever their other attributes and whatever else the rules carry.\<close>

theorem blueprint_depends_only_on_endpoint:
  assumes "url_rule r1 = Some q1" and "url_rule r2 = Some q2"
    and "rule_endpoint q1 = rule_endpoint q2"
  shows "blueprint r1 = blueprint r2 \<and> blueprints sp r1 = blueprints sp r2"
proof -
  have "endpoint r1 = endpoint r2" using assms by (simp add: endpoint_def)
  then have "blueprint r1 = blueprint r2" by (simp add: blueprint_def)
  then show ?thesis by (simp add: blueprints_def)
qed

theorem blueprint_depends_only_on_endpoint_witness:
  "blueprint (set_matched_rule
       (BaseRequestWebsocket_init SansIORequest_init ''GET'' ''http'' ''/a'' [] [] [] ''1.1''
          Map.empty)
       \<lparr> rule_endpoint = ''admin.users.list'', rule_other = (1::nat) \<rparr> Map.empty)
   = blueprint (set_matched_rule
       (BaseRequestWebsocket_init SansIORequest_init ''POST'' ''https'' ''/b'' ''x=1''
          [(''Host'', ''a'')] ''/root'' ''2'' [''server'' \<mapsto> PTuple [PStr ''h'', PInt 80]])
       \<lparr> rule_endpoint = ''admin.users.list'', rule_other = (2::nat) \<rparr> [''id'' \<mapsto> PInt 7]) \<and>
   blueprints split_blueprint_path (set_matched_rule
       (BaseRequestWebsocket_init SansIORequest_init ''GET'' ''http'' ''/a'' [] [] [] ''1.1''
          Map.empty)
       \<lparr> rule_endpoint = ''admin.users.list'', rule_other = (1::nat) \<rparr> Map.empty)
   = blueprints split_blueprint_path (set_matched_rule
       (BaseRequestWebsocket_init SansIORequest_init ''POST'' ''https'' ''/b'' ''x=1''
          [(''Host'', ''a'')] ''/root'' ''2'' [''server'' \<mapsto> PTuple [PStr ''h'', PInt 80]])
       \<lparr> rule_endpoint = ''admin.users.list'', rule_other = (2::nat) \<rparr> [''id'' \<mapsto> PInt 7])"
proof -
  let ?q1 = "\<lparr> rule_endpoint = ''admin.users.list'', rule_other = (1::nat) \<rparr>"
  let ?q2 = "\<lparr> rule_endpoint = ''admin.users.list'', rule_other = (2::nat) \<rparr>"
  let ?r1 = "set_matched_rule
       (BaseRequestWebsocket_init SansIORequest_init ''GET'' ''http'' ''/a'' [] [] [] ''1.1''
          Map.empty)
       ?q1 Map.empty"
  let ?r2 = "set_matched_rule
       (BaseRequestWebsocket_init SansIORequest_init ''POST'' ''https'' ''/b'' ''x=1''
          [(''Host'', ''a'')] ''/root'' ''2'' [''server'' \<mapsto> PTuple [PStr ''h'', PInt 80]])
       ?q2 [''id'' \<mapsto> PInt 7]"
  have u1: "url_rule ?r1 = Some ?q1" by (simp add: set_matched_rule_def)
  have u2: "url_rule ?r2 = Some ?q2" by (simp add: set_matched_rule_def)
  have e: "rule_endpoint ?q1 = rule_endpoint ?q2" by simp
  show ?thesis
    by (rule blueprint_depends_only_on_endpoint [OF u1 u2 e])
qed

subsection \<open>The content-length limit\<close>

text \<open>Claim C4. Without an active application context \<open>max_content_length\<close> returns
  \<open>None\<close> and does not fail; with an active application whose configuration holds the
  integer \<open>n\<close> under \<open>MAX_CONTENT_LENGTH\<close> it returns \<open>n\<close>.\<close>

theorem max_content_length_soft_fallback:
  "max_content_length None self = Inr PNone \<and>
   (config app ''MAX_CONTENT_LENGTH'' = Some (PInt n) \<longrightarrow>
      max_content_length (Some app) self = Inr (PInt n))"
  by (simp add: max_content_length_def dict_getitem_def)

theorem max_content_length_soft_fallback_witness:
  "max_content_length (Some \<lparr> config = [''MAX_CONTENT_LENGTH'' \<mapsto> PInt 1048576] \<rparr>)
     (BaseRequestWebsocket_init SansIORequest_init ''GET'' ''http'' ''/'' [] [] [] ''1.1''
        Map.empty :: unit request) = Inr (PInt 1048576)"
  using max_content_length_soft_fallback
          [of "BaseRequestWebsocket_init SansIORequest_init ''GET'' ''http'' ''/'' [] [] []
                 ''1.1'' Map.empty :: unit request"
              "\<lparr> config = [''MAX_CONTENT_LENGTH'' \<mapsto> PInt 1048576] \<rparr>" 1048576]
  by simp

text \<open>Claim C6, as amended. Accessing \<open>endpoint\<close>, \<open>blueprint\<close>, \<open>blueprints\<close> and
  \<open>script_root\<close> never raises: \<open>endpoint\<close> is the endpoint of the matched rule or \<open>None\<close>,
  \<open>script_root\<close> is the stored \<open>root_path\<close>, and \<open>blueprint\<close> and \<open>blueprints\<close> always return
  a value, the index \<open>[0]\<close> being applied to a list that is never empty.
  \<open>max_content_length\<close> returns \<open>None\<close> when no application context is active and the
  stored value when the configuration of the active application has the key
  \<open>MAX_CONTENT_LENGTH\<close>; when a context is active and the key is missing it raises
  \<open>KeyError\<close>, and in no other state does it raise.\<close>

theorem derived_properties_raise_only_on_missing_key:
  "max_content_length None self = Inr PNone \<and>
   (\<forall>x. config app ''MAX_CONTENT_LENGTH'' = Some x \<longrightarrow>
          max_content_length (Some app) self = Inr x) \<and>
   (config app ''MAX_CONTENT_LENGTH'' = None \<longrightarrow>
          max_content_length (Some app) self = Inl KeyError) \<and>
   (\<exists>x. max_content_length current_app self = Inr x)
     = (case current_app of None \<Rightarrow> True
        | Some a \<Rightarrow> ''MAX_CONTENT_LENGTH'' \<in> dom (config a)) \<and>
   (\<exists>err. max_content_length current_app self = Inl err)
     = (max_content_length current_app self = Inl KeyError) \<and>
   endpoint self = (case url_rule self of None \<Rightarrow> None | Some r \<Rightarrow> Some (rule_endpoint r)) \<and>
   script_root self = root_path self \<and>
   (\<exists>b. blueprint self = Inr b) \<and>
   (\<exists>bs. blueprints sp self = Inr bs)"
proof -
  have m0: "max_content_length None self = Inr PNone"
    by (simp add: max_content_length_def)
  have m1: "max_content_length (Some app) self = Inr x"
    if "config app ''MAX_CONTENT_LENGTH'' = Some x" for x
    using that by (simp add: max_content_length_def dict_getitem_def)
  have m2: "max_content_length (Some app) self = Inl KeyError"
    if "config app ''MAX_CONTENT_LENGTH'' = None"
    using that by (simp add: max_content_length_def dict_getitem_def)
  have m3: "(\<exists>x. max_content_length current_app self = Inr x)
     = (case current_app of None \<Rightarrow> True
        | Some a \<Rightarrow> ''MAX_CONTENT_LENGTH'' \<in> dom (config a))"
    by (auto simp: max_content_length_def dict_getitem_def split: option.splits)
  have m4: "(\<exists>err. max_content_length current_app self = Inl err)
     = (max_content_length current_app self = Inl KeyError)"
    by (auto simp: max_content_length_def dict_getitem_def split: option.splits)
  have e: "endpoint self
             = (case url_rule self of None \<Rightarrow> None | Some r \<Rightarrow> Some (rule_endpoint r))"
    by (simp add: endpoint_def split: option.splits)
  have s: "script_root self = root_path self"
    by (simp add: script_root_def)
  show ?thesis
    using m0 m1 m2 m3 m4 e s blueprint_total [of self] blueprints_total [of sp self]
    by blast
qed

theorem derived_properties_raise_only_on_missing_key_witness:
  "max_content_length (Some \<lparr> config = [''MAX_CONTENT_LENGTH'' \<mapsto> PInt 1048576] \<rparr>)
     (BaseRequestWebsocket_init SansIORequest_init ''GET'' ''http'' ''/'' [] [] [] ''1.1''
        Map.empty :: unit request) = Inr (PInt 1048576) \<and>
   max_content_length (Some \<lparr> config = [''DEBUG'' \<mapsto> PInt 0] \<rparr>)
     (BaseRequestWebsocket_init SansIORequest_init ''GET'' ''http'' ''/'' [] [] [] ''1.1''
        Map.empty :: unit request) = Inl KeyError"
proof -
  let ?r = "BaseRequestWebsocket_init SansIORequest_init ''GET'' ''http'' ''/'' [] [] [] ''1.1''
              Map.empty :: unit request"
  let ?a1 = "\<lparr> config = [''MAX_CONTENT_LENGTH'' \<mapsto> PInt 1048576] \<rparr>"
  let ?a2 = "\<lparr> config = [''DEBUG'' \<mapsto> PInt 0] \<rparr>"
  have k1: "config ?a1 ''MAX_CONTENT_LENGTH'' = Some (PInt 1048576)" by simp
  have k2: "config ?a2 ''MAX_CONTENT_LENGTH'' = None" by simp
  have "max_content_length (Some ?a1) ?r = Inr (PInt 1048576)"
    using k1 derived_properties_raise_only_on_missing_key [of ?r ?a1] by blast
  moreover have "max_content_length (Some ?a2) ?r = Inl KeyError"
    using k2 derived_properties_raise_only_on_missing_key [of ?r ?a2] by blast
  ultimately show ?thesis by simp
qed

text \<open>Claim C6 as stated fails: with an application context whose configuration lacks
  \<open>MAX_CONTENT_LENGTH\<close>, the subscription \<open>config["MAX_CONTENT_LENGTH"]\<close> raises
  \<open>KeyError\<close>.\<close>

theorem max_content_length_missing_key_counterexample:
  "max_content_length (Some \<lparr> config = Map.empty \<rparr>)
     (BaseRequestWebsocket_init SansIORequest_init ''GET'' ''http'' ''/'' [] [] [] ''1.1''
        Map.empty :: unit request) = Inl KeyError"
  by (simp add: max_content_length_def dict_getitem_def)

subsection \<open>The initializer\<close>

text \<open>Claim C5, as amended. \<open>script_root\<close> is the \<open>root_path\<close> attribute that the base
  initializer stored when it was handed the constructor's \<open>root_path\<close>. With werkzeug's
  initializer that attribute is the argument without its trailing slashes, so
  \<open>script_root\<close> equals the argument exactly when the argument is empty or does not end
  in a slash.\<close>

theorem script_root_is_stored_root_path:
  "script_root (BaseRequestWebsocket_init si m s p q h rp v sc :: 'a request)
     = root_path (si m s (dict_get sc ''server'') rp p q h (headers_get h ''Remote-Addr'')) \<and>
   script_root (BaseRequestWebsocket_init SansIORequest_init m s p q h rp v sc :: 'a request)
     = rstrip_char CHR ''/'' rp \<and>
   (script_root (BaseRequestWebsocket_init SansIORequest_init m s p q h rp v sc :: 'a request)
        = rp) = (rp = [] \<or> last rp \<noteq> CHR ''/'')"
proof -
  have r: "root_path (SansIORequest_init m s srv rp p q h ra) = rstrip_char CHR ''/'' rp"
    for srv ra
    by (simp add: SansIORequest_init_def)
  have a: "script_root (BaseRequestWebsocket_init si m s p q h rp v sc :: 'a request)
     = root_path (si m s (dict_get sc ''server'') rp p q h (headers_get h ''Remote-Addr''))"
    for si
    by (simp add: script_root_def BaseRequestWebsocket_init_def Let_def)
  show ?thesis
    unfolding a r rstrip_char_fixed by simp
qed

theorem script_root_is_stored_root_path_witness:
  "script_root (BaseRequestWebsocket_init SansIORequest_init ''GET'' ''http'' ''/'' [] [] []
      ''1.1'' Map.empty :: unit request) = [] \<and>
   script_root (BaseRequestWebsocket_init SansIORequest_init ''GET'' ''http'' ''/'' [] [] ''/app''
      ''1.1'' Map.empty :: unit request) = ''/app'' \<and>
   script_root (BaseRequestWebsocket_init SansIORequest_init ''GET'' ''http'' ''/'' [] [] ''/app/''
      ''1.1'' Map.empty :: unit request) = ''/app''"
proof -
  have h1: "([] :: string) = [] \<or> last [] \<noteq> CHR ''/''" by simp
  have h2: "''/app'' = [] \<or> last ''/app'' \<noteq> CHR ''/''" by simp
  have h3: "rstrip_char CHR ''/'' ''/app/'' = ''/app''" by (simp add: rstrip_char_def)
  have c1: "script_root (BaseRequestWebsocket_init SansIORequest_init ''GET'' ''http'' ''/'' [] []
      [] ''1.1'' Map.empty :: unit request) = []"
    using h1 script_root_is_stored_root_path [where ?'a = unit and rp = "[]"] by blast
  have c2: "script_root (BaseRequestWebsocket_init SansIORequest_init ''GET'' ''http'' ''/'' [] []
      ''/app'' ''1.1'' Map.empty :: unit request) = ''/app''"
    using h2 script_root_is_stored_root_path [where ?'a = unit and rp = "''/app''"] by blast
  have c3: "script_root (BaseRequestWebsocket_init SansIORequest_init ''GET'' ''http'' ''/'' [] []
      ''/app/'' ''1.1'' Map.empty :: unit request) = ''/app''"
    using h3 script_root_is_stored_root_path
               [where ?'a = unit and rp = "''/app/''", THEN conjunct2, THEN conjunct1]
    by simp
  show ?thesis using c1 c2 c3 by simp
qed

text \<open>Claim C5 as stated fails for a root path that ends in a slash: constructed with
  \<open>/app/\<close>, the request reports the script root \<open>/app\<close>.\<close>

theorem script_root_trailing_slash_counterexample:
  "script_root (BaseRequestWebsocket_init SansIORequest_init ''GET'' ''http'' ''/'' [] [] ''/app/''
      ''1.1'' Map.empty :: unit request) \<noteq> ''/app/''"
  by (simp add: script_root_def BaseRequestWebsocket_init_def SansIORequest_init_def
        rstrip_char_def Let_def)

text \<open>Claim C9. The initializer looks up \<open>server\<close> with \<open>scope.get\<close> and \<open>Remote-Addr\<close> with
  \<open>headers.get\<close>: a scope without \<open>server\<close> yields \<open>None\<close>, and so do headers without a
  \<open>Remote-Addr\<close> entry. Whatever the lookups yield is handed to the base initializer,
  whose result makes up the base attributes, and \<open>http_version\<close> and \<open>scope\<close> are stored
  as given. No step of the initializer can raise.\<close>

theorem init_tolerates_missing_entries:
  "http_version (BaseRequestWebsocket_init si m s p q h rp v sc :: 'a request) = v \<and>
   scope (BaseRequestWebsocket_init si m s p q h rp v sc :: 'a request) = sc \<and>
   sansio_request.truncate (BaseRequestWebsocket_init si m s p q h rp v sc :: 'a request)
     = si m s (dict_get sc ''server'') rp p q h (headers_get h ''Remote-Addr'') \<and>
   (sc ''server'' = None \<longrightarrow> dict_get sc ''server'' = PNone) \<and>
   ((\<forall>kv\<in>set h. map ascii_lower (fst kv) \<noteq> map ascii_lower ''Remote-Addr'')
      \<longrightarrow> headers_get h ''Remote-Addr'' = None)"
proof -
  let ?r = "BaseRequestWebsocket_init si m s p q h rp v sc :: 'a request"
  have f: "http_version ?r = v" "scope ?r = sc"
    by (simp_all add: BaseRequestWebsocket_init_def Let_def)
  have t: "sansio_request.truncate ?r
     = si m s (dict_get sc ''server'') rp p q h (headers_get h ''Remote-Addr'')"
    by (simp add: BaseRequestWebsocket_init_def Let_def sansio_request.truncate_def)
  have g: "dict_get sc ''server'' = PNone" if "sc ''server'' = None"
    using that by (simp add: dict_get_def)
  show ?thesis using f t g headers_get_missing by blast
qed

theorem init_tolerates_missing_entries_witness:
  "sansio_request.truncate
     (BaseRequestWebsocket_init SansIORequest_init ''GET'' ''http'' ''/'' [] [(''Host'', ''a'')] []
        ''1.1'' Map.empty :: unit request)
     = SansIORequest_init ''GET'' ''http'' PNone [] ''/'' [] [(''Host'', ''a'')] None \<and>
   http_version
     (BaseRequestWebsocket_init SansIORequest_init ''GET'' ''http'' ''/'' [] [(''Host'', ''a'')] []
        ''1.1'' Map.empty :: unit request) = ''1.1'' \<and>
   scope
     (BaseRequestWebsocket_init SansIORequest_init ''GET'' ''http'' ''/'' [] [(''Host'', ''a'')] []
        ''1.1'' Map.empty :: unit request) = Map.empty"
proof -
  have a: "(Map.empty :: py_dict) ''server'' = None" by simp
  have b: "\<forall>kv\<in>set [(''Host'', ''a'')].
             map ascii_lower (fst kv) \<noteq> map ascii_lower ''Remote-Addr''" by simp
  show ?thesis
    using a b init_tolerates_missing_entries
                [where ?'a = unit, of SansIORequest_init "''GET''" "''http''" "''/''" "[]"
                   "[(''Host'', ''a'')]" "[]" "''1.1''" Map.empty]
    by simp
qed

subsection \<open>Independence of constructed requests\<close>



end
